theory Spec2Isabelle
  imports Complex_Main
begin

section \<open>Python strings and numbers\<close>

text \<open>
  A Python \<open>str\<close> is modelled as a \<open>string\<close> whose characters are read as code points
  below 256. The functions of this section follow the Python built-ins that
  \<open>pdf2pptx.py\<close> calls: \<open>str(int)\<close>, \<open>str.split\<close>, \<open>float(str)\<close> and the POSIX flavour of
  \<open>os.path\<close>.
\<close>

definition is_digit :: "char \<Rightarrow> bool" where
  "is_digit c = (c \<in> set ''0123456789'')"

definition digit_val :: "char \<Rightarrow> nat" where
  "digit_val c = of_char c - 48"

definition digit_char :: "nat \<Rightarrow> char" where
  "digit_char d = char_of (48 + d)"

definition nat_of_digits :: "string \<Rightarrow> nat" where
  "nat_of_digits ds = foldl (\<lambda>a c. 10 * a + digit_val c) 0 ds"

text \<open>\<open>str(n)\<close> for a natural number: its decimal digits, most significant first.\<close>

function str_nat :: "nat \<Rightarrow> string" where
  "str_nat n = (if n < 10 then [digit_char n] else str_nat (n div 10) @ [digit_char (n mod 10)])"
  by pat_completeness auto
termination
  by (relation "measure id") auto

declare str_nat.simps [simp del]

text \<open>\<open>str(i)\<close> for a Python \<open>int\<close>.\<close>

definition str_int :: "int \<Rightarrow> string" where
  "str_int i = (if i < 0 then CHR ''-'' # str_nat (nat (- i)) else str_nat (nat i))"

text \<open>\<open>s.split(c)\<close> with a one-character separator: never empty, one part more than separators.\<close>

fun str_split :: "char \<Rightarrow> string \<Rightarrow> string list" where
  "str_split c [] = [[]]"
| "str_split c (a # s) =
     (if a = c then [] # str_split c s
      else (a # hd (str_split c s)) # tl (str_split c s))"

subsection \<open>\<open>float(str)\<close>\<close>

text \<open>
  The value of a Python \<open>float\<close>. \<open>Fin q\<close> stands for the IEEE double nearest to the
  rational \<open>q\<close>, which is what both \<open>float()\<close> and a float literal of the source text
  denote for the decimal numeral of value \<open>q\<close> (the literal \<open>13.3333\<close> is
  \<open>Fin (133333 / 10000)\<close>). The rounding itself is not modelled.
\<close>

datatype pyfloat = Fin rat | PInf | NInf | NaN

fun negate :: "pyfloat \<Rightarrow> pyfloat" where
  "negate (Fin q) = Fin (- q)"
| "negate PInf = NInf"
| "negate NInf = PInf"
| "negate NaN = NaN"

text \<open>
  The characters \<open>float()\<close> strips from both ends: the ASCII white space
  \<open>\t \n \v \f \r\<close> and the blank, and the two white-space code points U+0085 and U+00A0.
\<close>

definition is_space :: "char \<Rightarrow> bool" where
  "is_space c = (of_char c \<in> set [9, 10, 11, 12, 13, 32, 133, 160 :: nat])"

definition strip :: "string \<Rightarrow> string" where
  "strip s = rev (dropWhile is_space (rev (dropWhile is_space s)))"

text \<open>
  Underscores are dropped when each stands between two digits; any other underscore makes
  the conversion fail. \<open>prev\<close> is the character before the one read.
\<close>

fun strip_underscores :: "char \<Rightarrow> string \<Rightarrow> string option" where
  "strip_underscores prev [] = (if prev = CHR ''_'' then None else Some [])"
| "strip_underscores prev (c # cs) =
     (if c = CHR ''_'' then
        (if \<not> is_digit prev then None else strip_underscores c cs)
      else if prev = CHR ''_'' \<and> \<not> is_digit c then None
      else map_option ((#) c) (strip_underscores c cs))"

text \<open>Only the letters \<open>A\<close> to \<open>Z\<close> have a lower case in the comparison with \<open>inf\<close> and \<open>nan\<close>.\<close>

definition to_lower :: "char \<Rightarrow> char" where
  "to_lower c =
     (case map_of (zip ''ABCDEFGHIJKLMNOPQRSTUVWXYZ'' ''abcdefghijklmnopqrstuvwxyz'') c of
        Some l \<Rightarrow> l
      | None \<Rightarrow> c)"

definition take_sign :: "string \<Rightarrow> bool \<times> string" where
  "take_sign s =
     (case s of
        [] \<Rightarrow> (False, [])
      | c # r \<Rightarrow> if c = CHR ''+'' then (False, r) else if c = CHR ''-'' then (True, r) else (False, s))"

text \<open>\<open>m * 10 ^ e\<close> for an integer exponent.\<close>

definition scale10 :: "nat \<Rightarrow> int \<Rightarrow> rat" where
  "scale10 m e = (if 0 \<le> e then of_nat m * 10 ^ nat e else of_nat m / 10 ^ nat (- e))"

text \<open>The exponent part: nothing, or \<open>e\<close>/\<open>E\<close>, an optional sign and at least one digit.\<close>

definition parse_exponent :: "string \<Rightarrow> int option" where
  "parse_exponent r =
     (case r of
        [] \<Rightarrow> Some 0
      | c # r1 \<Rightarrow>
          if c \<noteq> CHR ''e'' \<and> c \<noteq> CHR ''E'' then None
          else (case take_sign r1 of (neg, ds) \<Rightarrow>
            if ds = [] \<or> \<not> list_all is_digit ds then None
            else Some (if neg then - int (nat_of_digits ds) else int (nat_of_digits ds))))"

text \<open>An unsigned value: \<open>inf\<close>, \<open>infinity\<close>, \<open>nan\<close> in any case, or a decimal number.\<close>

definition parse_abs :: "string \<Rightarrow> pyfloat option" where
  "parse_abs s =
     (let low = map to_lower s in
      if low = ''inf'' \<or> low = ''infinity'' then Some PInf
      else if low = ''nan'' then Some NaN
      else
        let ip = takeWhile is_digit s;
            r = dropWhile is_digit s;
            fp = (case r of [] \<Rightarrow> [] | c # t \<Rightarrow> if c = CHR ''.'' then takeWhile is_digit t else []);
            r' = (case r of [] \<Rightarrow> [] | c # t \<Rightarrow> if c = CHR ''.'' then dropWhile is_digit t else r)
        in if ip = [] \<and> fp = [] then None
           else (case parse_exponent r' of
                   None \<Rightarrow> None
                 | Some e \<Rightarrow> Some (Fin (scale10 (nat_of_digits (ip @ fp)) (e - int (length fp))))))"

text \<open>\<open>float(s)\<close>; \<open>None\<close> is the \<open>ValueError\<close>.\<close>

definition py_float :: "string \<Rightarrow> pyfloat option" where
  "py_float s =
     (let t = strip s in
      if t = [] then None
      else (case strip_underscores (CHR 0x00) t of
              None \<Rightarrow> None
            | Some u \<Rightarrow>
                (case take_sign u of (neg, v) \<Rightarrow>
                   (case parse_abs v of
                      None \<Rightarrow> None
                    | Some x \<Rightarrow> Some (if neg then negate x else x)))))"

section \<open>Logging and exits\<close>

datatype level = INFO | WARNING | ERROR

type_synonym log = "(level \<times> string) list"

text \<open>
  How a run stops other than by returning from \<open>main\<close>: \<open>sys.exit(code)\<close>, or an exception
  nobody catches (the interpreter prints the traceback and exits with status 1).
\<close>

datatype stop = SysExit int | Uncaught string

text \<open>\<open>error_and_exit(message, exit_code=1)\<close>: one ERROR record, then \<open>sys.exit\<close>.\<close>

definition error_and_exit :: "string \<Rightarrow> int \<Rightarrow> log \<times> stop" where
  "error_and_exit message exit_code = ([(ERROR, message)], SysExit exit_code)"

section \<open>The slide-size parser\<close>

definition slide_size_message :: string where
  "slide_size_message = ''Could not parse slide size. Use '' @ [CHR 0x27] @ ''16:9'' @ [CHR 0x27]
     @ '', '' @ [CHR 0x27] @ ''4:3'' @ [CHR 0x27] @ '', or '' @ [CHR 0x27] @ ''WxH'' @ [CHR 0x27]
     @ '' in inches.''"

text \<open>
  \<open>parse_slide_size(size_str)\<close>. The unpacking \<open>w_str, h_str = size_str.split('x')\<close> raises
  unless the split has exactly two parts; that exception and the one of \<open>float\<close> are both
  caught by \<open>except Exception\<close>.
\<close>

definition parse_slide_size :: "string \<Rightarrow> (log \<times> stop) + (pyfloat \<times> pyfloat)" where
  "parse_slide_size size_str =
     (if size_str \<in> set [''16:9'', ''16x9''] then Inr (Fin (133333 / 10000), Fin (75 / 10))
      else if size_str \<in> set [''4:3'', ''4x3''] then Inr (Fin 10, Fin (75 / 10))
      else
        (case str_split (CHR ''x'') size_str of
           [w_str, h_str] \<Rightarrow>
             (case py_float w_str of
                None \<Rightarrow> Inl (error_and_exit slide_size_message 1)
              | Some w \<Rightarrow>
                  (case py_float h_str of
                     None \<Rightarrow> Inl (error_and_exit slide_size_message 1)
                   | Some h \<Rightarrow> Inr (w, h)))
         | _ \<Rightarrow> Inl (error_and_exit slide_size_message 1)))"

section \<open>Paths and the file system\<close>

text \<open>\<open>s.rfind(c)\<close>: the index of the last \<open>c\<close> in \<open>s\<close>, or \<open>-1\<close>.\<close>

definition rfind :: "char \<Rightarrow> string \<Rightarrow> int" where
  "rfind c s =
     (if c \<in> set s then int (length s) - 1 - int (length (takeWhile (\<lambda>a. a \<noteq> c) (rev s)))
      else - 1)"

text \<open>\<open>os.path.basename(p)\<close>: what follows the last slash.\<close>

definition basename :: "string \<Rightarrow> string" where
  "basename p = drop (nat (rfind (CHR ''/'') p + 1)) p"

text \<open>
  \<open>os.path.splitext(p)\<close>: the extension starts at the last dot, provided that dot comes after
  the last slash and some character of the file name before it is not a dot.
\<close>

definition splitext :: "string \<Rightarrow> string \<times> string" where
  "splitext p =
     (let sepIndex = rfind (CHR ''/'') p;
          dotIndex = rfind (CHR ''.'') p
      in if dotIndex > sepIndex
            \<and> list_ex (\<lambda>c. c \<noteq> CHR ''.'') (drop (nat (sepIndex + 1)) (take (nat dotIndex) p))
         then (take (nat dotIndex) p, drop (nat dotIndex) p)
         else (p, []))"

text \<open>\<open>os.path.join(a, b)\<close>.\<close>

definition join :: "string \<Rightarrow> string \<Rightarrow> string" where
  "join a b =
     (if b \<noteq> [] \<and> hd b = CHR ''/'' then b
      else if a = [] \<or> last a = CHR ''/'' then a @ b
      else a @ ''/'' @ b)"

text \<open>\<open>" ".join(words)\<close>.\<close>

fun join_words :: "string list \<Rightarrow> string" where
  "join_words [] = []"
| "join_words [w] = w"
| "join_words (w # ws) = w @ '' '' @ join_words ws"

text \<open>
  The file system as the program sees it: which paths are there, and whether each is a regular
  file or a directory. A path is the string the program passes to the operating system.
\<close>

datatype node = File | Dir

type_synonym filesystem = "(string \<times> node) list"

definition path_exists :: "filesystem \<Rightarrow> string \<Rightarrow> bool" where
  "path_exists fs p = (map_of fs p \<noteq> None)"

definition isfile :: "filesystem \<Rightarrow> string \<Rightarrow> bool" where
  "isfile fs p = (map_of fs p = Some File)"

definition isdir :: "filesystem \<Rightarrow> string \<Rightarrow> bool" where
  "isdir fs p = (map_of fs p = Some Dir)"

fun put :: "string \<Rightarrow> node \<Rightarrow> filesystem \<Rightarrow> filesystem" where
  "put p n [] = [(p, n)]"
| "put p n ((q, m) # fs) = (if q = p then (p, n) # fs else (q, m) # put p n fs)"

text \<open>\<open>below d q\<close>: the path \<open>q\<close> lies inside the directory \<open>d\<close>.\<close>

definition below :: "string \<Rightarrow> string \<Rightarrow> bool" where
  "below d q =
     (let d' = (if d \<noteq> [] \<and> last d = CHR ''/'' then d else d @ ''/'')
      in length d' < length q \<and> take (length d') q = d')"

definition remove_tree :: "string \<Rightarrow> filesystem \<Rightarrow> filesystem" where
  "remove_tree d fs = filter (\<lambda>(q, n). q \<noteq> d \<and> \<not> below d q) fs"

section \<open>The presentation\<close>

text \<open>
  A slide made by the program holds one picture on the blank layout, so a slide is
  modelled by that picture. Lengths are in EMU, as \<open>python-pptx\<close> stores them.
\<close>

record picture =
  image_file :: string
  pic_left :: int
  pic_top :: int
  pic_width :: int
  pic_height :: int

record presentation =
  slide_width :: int
  slide_height :: int
  slides :: "picture list"

section \<open>The command line and the environment\<close>

datatype image_format = JPEG | PNG

text \<open>The namespace \<open>argparse\<close> returns.\<close>

record args =
  verbose :: bool
  retain_image_files :: bool
  dpi :: int
  quality :: int
  image_format :: image_format
  temp_dir :: "string option"
  slide_size :: string
  input_pdf :: string
  output_pptx :: string

text \<open>
  \<open>subprocess.run(cmd, check=True)\<close>: the command ran and exited with a status, or it could
  not be started and an exception other than \<open>CalledProcessError\<close> is raised.
\<close>

datatype run_result = Completed int | NotStarted string

text \<open>
  What the program does not decide: the operating system, the external command and the
  \<open>python-pptx\<close> library. An error field gives the text of the exception raised, \<open>None\<close> when
  the call succeeds.
  \<^item> \<open>mkdir_error fs p\<close>: \<open>os.mkdir(p)\<close> on a path that does not exist yet;
  \<^item> \<open>run_command fs cmd\<close>: the result of the command and the file system it leaves;
  \<^item> \<open>called_process_text cmd rc\<close>: \<open>str(e)\<close> of the \<open>CalledProcessError\<close>;
  \<^item> \<open>rmtree_error fs p\<close>: \<open>shutil.rmtree(p)\<close> on a directory; a failed deletion is taken
    to leave the tree as it was;
  \<^item> \<open>Inches x\<close>: the EMU length, or the exception text;
  \<^item> \<open>set_slide_width_error\<close>, \<open>set_slide_height_error\<close>: the two property setters;
  \<^item> \<open>add_picture_error p\<close>: loading the image file \<open>p\<close> into a slide;
  \<^item> \<open>save_error fs p\<close>: writing the presentation to \<open>p\<close>.
  \<open>Presentation()\<close>, \<open>prs.slide_layouts[6]\<close> and \<open>add_slide\<close> are taken not to raise.
\<close>

record env =
  mkdir_error :: "filesystem \<Rightarrow> string \<Rightarrow> string option"
  run_command :: "filesystem \<Rightarrow> string list \<Rightarrow> run_result \<times> filesystem"
  called_process_text :: "string list \<Rightarrow> int \<Rightarrow> string"
  rmtree_error :: "filesystem \<Rightarrow> string \<Rightarrow> string option"
  Inches :: "pyfloat \<Rightarrow> string + int"
  set_slide_width_error :: "int \<Rightarrow> string option"
  set_slide_height_error :: "int \<Rightarrow> string option"
  add_picture_error :: "string \<Rightarrow> string option"
  save_error :: "filesystem \<Rightarrow> string \<Rightarrow> string option"

text \<open>
  What a run leaves behind: the file system, the records written to the log, the directories
  made with \<open>os.mkdir\<close>, the commands given to \<open>subprocess.run\<close>, and the presentations
  written with their paths.
\<close>

record world =
  fs :: filesystem
  logged :: log
  made :: "string list"
  commands :: "string list list"
  saved :: "(string \<times> presentation) list"

definition os_mkdir :: "env \<Rightarrow> filesystem \<Rightarrow> string \<Rightarrow> string + filesystem" where
  "os_mkdir e f p =
     (if path_exists f p then Inl ''File exists''
      else (case mkdir_error e f p of Some err \<Rightarrow> Inl err | None \<Rightarrow> Inr (put p Dir f)))"

definition shutil_rmtree :: "env \<Rightarrow> filesystem \<Rightarrow> string \<Rightarrow> string + filesystem" where
  "shutil_rmtree e f p =
     (if \<not> isdir f p then Inl ''Not a directory''
      else (case rmtree_error e f p of Some err \<Rightarrow> Inl err | None \<Rightarrow> Inr (remove_tree p f)))"

definition logging_info :: "bool \<Rightarrow> string \<Rightarrow> world \<Rightarrow> world" where
  "logging_info verb msg w = (if verb then w\<lparr>logged := logged w @ [(INFO, msg)]\<rparr> else w)"

definition logging_warning :: "string \<Rightarrow> world \<Rightarrow> world" where
  "logging_warning msg w = w\<lparr>logged := logged w @ [(WARNING, msg)]\<rparr>"

text \<open>A call of \<open>error_and_exit\<close> in a given world.\<close>

definition exit_in :: "world \<Rightarrow> log \<times> stop \<Rightarrow> stop option \<times> world" where
  "exit_in w x = (Some (snd x), w\<lparr>logged := logged w @ fst x\<rparr>)"

text \<open>The status the process exits with; \<open>None\<close> is the return from \<open>main\<close>.\<close>

fun exit_status :: "stop option \<Rightarrow> int" where
  "exit_status None = 0"
| "exit_status (Some (SysExit c)) = c"
| "exit_status (Some (Uncaught x)) = 1"

section \<open>The program\<close>

text \<open>A file name between single quotes, as the messages show it.\<close>

definition quoted :: "string \<Rightarrow> string" where
  "quoted s = [CHR 0x27] @ s @ [CHR 0x27]"

text \<open>Step 2: the temporary directory, \<open>--temp-dir\<close> when given and not empty.\<close>

definition temp_dir_of :: "args \<Rightarrow> string" where
  "temp_dir_of a =
     (let base_name = fst (splitext (basename (input_pdf a)))
      in case temp_dir a of
           Some d \<Rightarrow> if d \<noteq> [] then d else base_name @ ''_temp''
         | None \<Rightarrow> base_name @ ''_temp'')"

definition extension_of :: "args \<Rightarrow> string" where
  "extension_of a = (if image_format a = JPEG then ''jpg'' else ''png'')"

text \<open>Step 3: the list passed to \<open>subprocess.run\<close>.\<close>

definition convert_cmd :: "args \<Rightarrow> string list" where
  "convert_cmd a =
     [''convert''] @ (if verbose a then [''-verbose''] else []) @
     [''-density'', str_int (dpi a),
      input_pdf a,
      ''-resize'', ''50%'',
      ''-quality'', str_int (quality a),
      join (temp_dir_of a) (''page.'' @ extension_of a)]"

text \<open>Step 6: the \<open>index\<close>-th image file, and the loop that adds one slide per file found.\<close>

definition page_file :: "string \<Rightarrow> string \<Rightarrow> nat \<Rightarrow> string" where
  "page_file tmp ext index = join tmp (''page-'' @ str_nat index @ ''.'' @ ext)"

function add_slides ::
  "env \<Rightarrow> bool \<Rightarrow> string \<Rightarrow> string \<Rightarrow> world \<Rightarrow> presentation \<Rightarrow> nat \<Rightarrow> nat
     \<Rightarrow> (string + presentation \<times> nat) \<times> world" where
  "add_slides e verb tmp ext w prs index slide_count =
     (let image_filename = page_file tmp ext index in
      if \<not> isfile (fs w) image_filename then (Inr (prs, slide_count), w)
      else
        let w' = logging_info verb (''Adding slide for '' @ quoted image_filename) w in
        (case add_picture_error e image_filename of
           Some x \<Rightarrow> (Inl x, w')
         | None \<Rightarrow>
             add_slides e verb tmp ext w'
               (prs\<lparr>slides := slides prs @
                  [\<lparr>image_file = image_filename, pic_left = 0, pic_top = 0,
                    pic_width = slide_width prs, pic_height = slide_height prs\<rparr>]\<rparr>)
               (index + 1) (slide_count + 1)))"
  by pat_completeness auto
termination
proof (relation "measure (\<lambda>(e, verb, tmp, ext, w, prs, index, slide_count).
          length (filter (\<lambda>(p, n). \<exists>j\<ge>index. p = page_file tmp ext j) (fs w)))", goal_cases)
  case 1
  show ?case by simp
next
  case (2 e verb tmp ext w prs index slide_count image_filename w')
  have dv: "digit_val (digit_char d) = d" if "d < 10" for d
    using that by (simp add: digit_val_def digit_char_def)
  have inv: "nat_of_digits (str_nat n) = n" for n
  proof (induction n rule: str_nat.induct)
    case (1 n)
    show ?case
    proof (cases "n < 10")
      case True
      then show ?thesis
        by (subst str_nat.simps) (simp add: nat_of_digits_def dv)
    next
      case False
      with 1 have "nat_of_digits (str_nat (n div 10)) = n div 10" by simp
      with False show ?thesis
        by (subst str_nat.simps) (simp add: nat_of_digits_def dv)
    qed
  qed
  have inj: "i = j" if "page_file tmp ext i = page_file tmp ext j" for i j
  proof -
    from that have "str_nat i = str_nat j"
      by (simp add: page_file_def join_def split: if_splits)
    then have "nat_of_digits (str_nat i) = nat_of_digits (str_nat j)" by simp
    then show ?thesis by (simp add: inv)
  qed
  let ?P = "\<lambda>k (p, n :: node). \<exists>j\<ge>k. p = page_file tmp ext j"
  from 2 have mem: "(page_file tmp ext index, File) \<in> set (fs w)"
    by (auto simp: isfile_def dest: map_of_SomeD)
  have imp: "?P index x" if "?P (index + 1) x" for x
  proof -
    obtain p n where x: "x = (p, n)" by (cases x)
    with that obtain j where "index + 1 \<le> j" "p = page_file tmp ext j" by auto
    then have "index \<le> j \<and> p = page_file tmp ext j" by simp
    with x show ?thesis by auto
  qed
  have sub: "filter (?P (index + 1)) (fs w) = filter (?P (index + 1)) (filter (?P index) (fs w))"
    unfolding filter_filter by (rule filter_cong) (use imp in blast)+
  have "\<not> ?P (index + 1) (page_file tmp ext index, File)"
    using inj by fastforce
  moreover have "(page_file tmp ext index, File) \<in> set (filter (?P index) (fs w))"
    using mem by auto
  ultimately have "length (filter (?P (index + 1)) (filter (?P index) (fs w)))
      < length (filter (?P index) (fs w))"
    by (rule length_filter_less[rotated])
  with sub have "length (filter (?P (index + 1)) (fs w)) < length (filter (?P index) (fs w))"
    by simp
  moreover have "fs w' = fs w"
    using 2 by (simp add: logging_info_def)
  ultimately show ?case by simp
qed

declare add_slides.simps [simp del]

text \<open>Step 8: the cleanup after a successful save.\<close>

definition cleanup :: "env \<Rightarrow> args \<Rightarrow> string \<Rightarrow> world \<Rightarrow> world" where
  "cleanup e a tmp w =
     (if \<not> retain_image_files a then
        let w1 = logging_info (verbose a) (''Removing temporary directory '' @ quoted tmp @ ''...'') w
        in (case shutil_rmtree e (fs w1) tmp of
              Inr f \<Rightarrow> logging_info (verbose a) (''Removed '' @ quoted tmp @ ''.'') (w1\<lparr>fs := f\<rparr>)
            | Inl err \<Rightarrow> logging_warning (''Could not remove '' @ quoted tmp @ '': '' @ err) w1)
      else logging_info (verbose a) (''Retaining all image files in '' @ quoted tmp @ ''.'') w)"

text \<open>
  Step 7, then step 8: \<open>prs.save\<close> is not inside any \<open>try\<close>, so its exception ends the run
  there. A failed save is taken to leave the file system as it was.
\<close>

definition save_pptx ::
  "env \<Rightarrow> args \<Rightarrow> string \<Rightarrow> world \<Rightarrow> presentation \<Rightarrow> nat \<Rightarrow> stop option \<times> world" where
  "save_pptx e a tmp w prs slide_count =
     (let pptx_file = output_pptx a in
      case save_error e (fs w) pptx_file of
        Some x \<Rightarrow> (Some (Uncaught x), w)
      | None \<Rightarrow>
          let w1 = w\<lparr>fs := put pptx_file File (fs w), saved := saved w @ [(pptx_file, prs)]\<rparr>;
              w2 = logging_info (verbose a)
                     (''Successfully created '' @ quoted pptx_file @ '' with ''
                        @ str_nat slide_count @ '' slide(s).'') w1
          in (None, cleanup e a tmp w2))"

text \<open>Steps 4 to 6: the slide size is parsed here, after the conversion.\<close>

definition assemble :: "env \<Rightarrow> args \<Rightarrow> string \<Rightarrow> string \<Rightarrow> world \<Rightarrow> stop option \<times> world" where
  "assemble e a tmp ext w =
     (case parse_slide_size (slide_size a) of
        Inl x \<Rightarrow> exit_in w x
      | Inr (slide_width_in, slide_height_in) \<Rightarrow>
          (case Inches e slide_width_in of
             Inl x \<Rightarrow> (Some (Uncaught x), w)
           | Inr cx \<Rightarrow>
               (case set_slide_width_error e cx of
                  Some x \<Rightarrow> (Some (Uncaught x), w)
                | None \<Rightarrow>
                    (case Inches e slide_height_in of
                       Inl x \<Rightarrow> (Some (Uncaught x), w)
                     | Inr cy \<Rightarrow>
                         (case set_slide_height_error e cy of
                            Some x \<Rightarrow> (Some (Uncaught x), w)
                          | None \<Rightarrow>
                              (case add_slides e (verbose a) tmp ext w
                                      \<lparr>slide_width = cx, slide_height = cy, slides = []\<rparr> 0 0 of
                                 (Inl x, w') \<Rightarrow> (Some (Uncaught x), w')
                               | (Inr (prs, slide_count), w') \<Rightarrow>
                                   save_pptx e a tmp w' prs slide_count))))))"

text \<open>
  Step 3: the conversion. \<open>commands\<close> records the list given to \<open>subprocess.run\<close>. Only
  \<open>CalledProcessError\<close> is caught; the handler deletes the directory when it is still one
  and the images are not retained, with \<open>ignore_errors=True\<close>.
\<close>

definition rasterize :: "env \<Rightarrow> args \<Rightarrow> string \<Rightarrow> world \<Rightarrow> stop option \<times> world" where
  "rasterize e a tmp w =
     (let extension = extension_of a;
          cmd = convert_cmd a;
          w1 = logging_info (verbose a)
                 (''Running ImageMagick convert:'' @ [CHR 0x0A] @ ''  '' @ join_words cmd) w;
          w2 = w1\<lparr>commands := commands w1 @ [cmd]\<rparr>
      in case run_command e (fs w2) cmd of
           (NotStarted x, f) \<Rightarrow> (Some (Uncaught x), w2)
         | (Completed rc, f) \<Rightarrow>
             if rc \<noteq> 0 then
               let w3 = w2\<lparr>fs := f\<rparr>;
                   w4 = (if isdir (fs w3) tmp \<and> \<not> retain_image_files a
                         then (case shutil_rmtree e (fs w3) tmp of
                                 Inr f' \<Rightarrow> w3\<lparr>fs := f'\<rparr>
                               | Inl err \<Rightarrow> w3)
                         else w3)
               in exit_in w4 (error_and_exit
                    (''ImageMagick conversion failed: '' @ called_process_text e cmd rc) 1)
             else assemble e a tmp extension
                    (logging_info (verbose a) ''Conversion done. Now generating PPTX...''
                       (w2\<lparr>fs := f\<rparr>)))"

text \<open>
  \<open>main\<close>, from the parsed arguments \<open>a\<close> and the file system \<open>f0\<close> the run starts in:
  how the run stops (\<open>None\<close> when \<open>main\<close> returns) and the world it leaves.
\<close>

definition main :: "env \<Rightarrow> args \<Rightarrow> filesystem \<Rightarrow> stop option \<times> world" where
  "main e a f0 =
     (let w = \<lparr>fs = f0, logged = [], made = [], commands = [], saved = []\<rparr>;
          pdf_file = input_pdf a
      in if \<not> isfile f0 pdf_file then
           exit_in w (error_and_exit (''PDF file '' @ quoted pdf_file @ '' does not exist.'') 1)
         else
           let tmp = temp_dir_of a
           in if path_exists f0 tmp then
                exit_in w (error_and_exit
                  (''Temporary directory '' @ quoted tmp @ '' already exists. ''
                     @ ''Remove it or specify a different directory with --temp-dir.'') 1)
              else (case os_mkdir e f0 tmp of
                      Inl err \<Rightarrow>
                        exit_in w (error_and_exit
                          (''Could not create directory '' @ quoted tmp @ '': '' @ err) 1)
                    | Inr f1 \<Rightarrow> rasterize e a tmp (w\<lparr>fs := f1, made := made w @ [tmp]\<rparr>)))"

text \<open>The four tokens that name a preset.\<close>

definition presets :: "string list" where
  "presets = [''16:9'', ''16x9'', ''4:3'', ''4x3'']"

section \<open>An example run\<close>

text \<open>
  A run with the default options on \<open>deck.pdf\<close>. The environment never refuses a call; the
  external command exits with status \<open>rc\<close> and adds the files \<open>out\<close>; a finite length \<open>x\<close> in
  inches is the whole number of EMU in \<open>x * 914400\<close>.
\<close>

definition demo_env :: "filesystem \<Rightarrow> int \<Rightarrow> env" where
  "demo_env out rc =
     \<lparr>mkdir_error = (\<lambda>f p. None),
      run_command = (\<lambda>f cmd. (Completed rc, f @ out)),
      called_process_text = (\<lambda>cmd c. ''Command returned non-zero exit status.''),
      rmtree_error = (\<lambda>f p. None),
      Inches = (\<lambda>x. case x of Fin q \<Rightarrow> Inr \<lfloor>q * 914400\<rfloor> | _ \<Rightarrow> Inl ''cannot convert float to integer''),
      set_slide_width_error = (\<lambda>cx. None),
      set_slide_height_error = (\<lambda>cy. None),
      add_picture_error = (\<lambda>p. None),
      save_error = (\<lambda>f p. None)\<rparr>"

definition demo_args :: args where
  "demo_args =
     \<lparr>verbose = False, retain_image_files = False, dpi = 1200, quality = 95,
      image_format = JPEG, temp_dir = None, slide_size = ''16:9'',
      input_pdf = ''deck.pdf'', output_pptx = ''deck.pptx''\<rparr>"

definition demo_fs :: filesystem where
  "demo_fs = [(''deck.pdf'', File)]"

definition demo_pages :: filesystem where
  "demo_pages = [(''deck_temp/page-0.jpg'', File), (''deck_temp/page-1.jpg'', File),
                 (''deck_temp/page-2.jpg'', File), (''deck_temp/page-4.jpg'', File)]"

section \<open>Properties of the slide-size parser\<close>

lemma str_split_length: "length (str_split c s) = Suc (count_list s c)"
  by (induction s) (auto simp: Suc_pred)

lemma str_split_none: "c \<notin> set s \<Longrightarrow> str_split c s = [s]"
  by (induction s) auto

lemma str_split_one:
  "count_list s c = 1 \<Longrightarrow>
   str_split c s = [takeWhile (\<lambda>a. a \<noteq> c) s, tl (dropWhile (\<lambda>a. a \<noteq> c) s)]"
proof (induction s)
  case Nil
  then show ?case by simp
next
  case (Cons a s)
  show ?case
  proof (cases "a = c")
    case True
    with Cons.prems have "count_list s c = 0" by simp
    then have "c \<notin> set s" by (simp add: count_list_0_iff)
    with True show ?thesis by (simp add: str_split_none)
  next
    case False
    with Cons show ?thesis by simp
  qed
qed

lemma case_two_other:
  "length xs \<noteq> 2 \<Longrightarrow> (case xs of [] \<Rightarrow> d | [a] \<Rightarrow> d | [a, b] \<Rightarrow> f a b | a # b # c # r \<Rightarrow> d) = d"
  by (auto split: list.splits)

text \<open>
  Outside the presets the parser is decided by the number of \<open>x\<close> in the token and by
  \<open>float\<close> on what stands before and after the only one.
\<close>

lemma parse_slide_size_split:
  assumes "tok \<notin> set presets"
  shows "parse_slide_size tok =
     (if count_list tok (CHR ''x'') = 1 then
        (case py_float (takeWhile (\<lambda>c. c \<noteq> CHR ''x'') tok) of
           None \<Rightarrow> Inl ([(ERROR, slide_size_message)], SysExit 1)
         | Some w \<Rightarrow>
            (case py_float (tl (dropWhile (\<lambda>c. c \<noteq> CHR ''x'') tok)) of
               None \<Rightarrow> Inl ([(ERROR, slide_size_message)], SysExit 1)
             | Some h \<Rightarrow> Inr (w, h)))
      else Inl ([(ERROR, slide_size_message)], SysExit 1))"
proof (cases "count_list tok (CHR ''x'') = 1")
  case True
  with assms show ?thesis
    by (simp add: parse_slide_size_def presets_def str_split_one error_and_exit_def
        split: option.splits)
next
  case False
  then have "length (str_split (CHR ''x'') tok) \<noteq> 2"
    by (simp add: str_split_length)
  with assms False show ?thesis
    by (simp add: parse_slide_size_def presets_def case_two_other error_and_exit_def
        split: option.splits)
qed

text \<open>
  C7. Each preset token gives its literal pair: \<open>16:9\<close> and \<open>16x9\<close> give (13.3333, 7.5),
  \<open>4:3\<close> and \<open>4x3\<close> give (10.0, 7.5); the custom token \<open>12.5x8\<close> gives (12.5, 8.0).
\<close>

theorem parse_slide_size_presets:
  "parse_slide_size ''16:9'' = Inr (Fin (133333 / 10000), Fin (15 / 2))
   \<and> parse_slide_size ''16x9'' = Inr (Fin (133333 / 10000), Fin (15 / 2))
   \<and> parse_slide_size ''4:3'' = Inr (Fin 10, Fin (15 / 2))
   \<and> parse_slide_size ''4x3'' = Inr (Fin 10, Fin (15 / 2))
   \<and> parse_slide_size ''12.5x8'' = Inr (Fin (25 / 2), Fin 8)"
  by (simp add: parse_slide_size_def py_float_def strip_def is_space_def parse_abs_def to_lower_def
      is_digit_def take_sign_def parse_exponent_def scale10_def nat_of_digits_def digit_val_def)

text \<open>A token with exactly one separator is its two sides around it, and only so.\<close>

lemma split_at_only_decomp:
  "count_list tok c = 1 \<Longrightarrow>
     tok = takeWhile (\<lambda>a. a \<noteq> c) tok @ [c] @ tl (dropWhile (\<lambda>a. a \<noteq> c) tok)
     \<and> c \<notin> set (takeWhile (\<lambda>a. a \<noteq> c) tok)
     \<and> c \<notin> set (tl (dropWhile (\<lambda>a. a \<noteq> c) tok))"
proof (induction tok)
  case Nil
  then show ?case by simp
next
  case (Cons a s)
  show ?case
  proof (cases "a = c")
    case True
    with Cons.prems have "count_list s c = 0" by simp
    then have "c \<notin> set s" by (simp add: count_list_0_iff)
    with True show ?thesis by simp
  next
    case False
    with Cons.prems have "count_list s c = 1" by simp
    from Cons.IH[OF this] False show ?thesis by simp
  qed
qed

lemma split_at_only_unique:
  assumes "tok = ws @ [c] @ hs" "c \<notin> set ws" "c \<notin> set hs"
  shows "count_list tok c = 1 \<and> takeWhile (\<lambda>a. a \<noteq> c) tok = ws
     \<and> tl (dropWhile (\<lambda>a. a \<noteq> c) tok) = hs"
proof -
  from assms have "count_list ws c = 0" "count_list hs c = 0"
    by (simp_all add: count_list_0_iff)
  with assms(1) have "count_list tok c = 1" by simp
  moreover from assms have "takeWhile (\<lambda>a. a \<noteq> c) tok = ws"
    by (auto simp: takeWhile_tail)
  moreover from assms have "dropWhile (\<lambda>a. a \<noteq> c) tok = c # hs"
    by (auto simp: dropWhile_append3)
  ultimately show ?thesis by simp
qed

text \<open>
  C3, as the claim states it, fails: the token \<open>0x-1\<close> is not a preset, neither part is a
  positive number, and the parser returns the pair (0.0, -1.0) instead of failing.
\<close>

theorem parse_slide_size_nonpositive:
  "parse_slide_size ''0x-1'' = Inr (Fin 0, Fin (- 1))"
  by (simp add: parse_slide_size_def py_float_def strip_def is_space_def parse_abs_def
        to_lower_def is_digit_def take_sign_def parse_exponent_def scale10_def nat_of_digits_def
        digit_val_def)

text \<open>
  C3, amended. For every token other than the four presets, the parser returns a pair
  exactly when the token is two parts around a single \<open>x\<close> and \<open>float\<close> accepts both parts;
  the pair is then the two values \<open>float\<close> gives, whatever their sign. Whenever the token is
  not of that form, the parser logs its message as an error and exits with status 1.
\<close>

theorem parse_slide_size_parts:
  assumes "tok \<notin> set presets"
  shows "(parse_slide_size tok = Inr (w, h) \<longleftrightarrow>
            (\<exists>ws hs. tok = ws @ ''x'' @ hs \<and> CHR ''x'' \<notin> set ws \<and> CHR ''x'' \<notin> set hs
                \<and> py_float ws = Some w \<and> py_float hs = Some h))
       \<and> ((\<nexists>ws hs. tok = ws @ ''x'' @ hs \<and> CHR ''x'' \<notin> set ws \<and> CHR ''x'' \<notin> set hs
                \<and> py_float ws \<noteq> None \<and> py_float hs \<noteq> None)
            \<longrightarrow> parse_slide_size tok = Inl ([(ERROR, slide_size_message)], SysExit 1)
                \<and> exit_status (Some (SysExit 1)) \<noteq> 0)"
proof -
  let ?l = "takeWhile (\<lambda>c. c \<noteq> CHR ''x'') tok"
  let ?r = "tl (dropWhile (\<lambda>c. c \<noteq> CHR ''x'') tok)"
  have dec: "(\<exists>ws hs. tok = ws @ ''x'' @ hs \<and> CHR ''x'' \<notin> set ws \<and> CHR ''x'' \<notin> set hs
                \<and> P ws hs) \<longleftrightarrow> (count_list tok (CHR ''x'') = 1 \<and> P ?l ?r)" for P
  proof
    assume "\<exists>ws hs. tok = ws @ ''x'' @ hs \<and> CHR ''x'' \<notin> set ws \<and> CHR ''x'' \<notin> set hs \<and> P ws hs"
    then obtain ws hs where d: "tok = ws @ [CHR ''x''] @ hs" "CHR ''x'' \<notin> set ws"
        "CHR ''x'' \<notin> set hs" and p: "P ws hs"
      by auto
    from split_at_only_unique[OF d] p show "count_list tok (CHR ''x'') = 1 \<and> P ?l ?r"
      by simp
  next
    assume a: "count_list tok (CHR ''x'') = 1 \<and> P ?l ?r"
    then have "tok = ?l @ ''x'' @ ?r \<and> CHR ''x'' \<notin> set ?l \<and> CHR ''x'' \<notin> set ?r"
      using split_at_only_decomp[of tok "CHR ''x''"] by simp
    with a show "\<exists>ws hs. tok = ws @ ''x'' @ hs \<and> CHR ''x'' \<notin> set ws \<and> CHR ''x'' \<notin> set hs \<and> P ws hs"
      by blast
  qed
  show ?thesis
    unfolding dec parse_slide_size_split[OF assms]
    by (auto split: option.splits)
qed

text \<open>The amended C3 at the token \<open>0x-1\<close>.\<close>

theorem parse_slide_size_parts_witness:
  "''0x-1'' \<notin> set presets
   \<and> parse_slide_size ''0x-1'' = Inr (Fin 0, Fin (- 1))
   \<and> (\<exists>ws hs. ''0x-1'' = ws @ ''x'' @ hs \<and> CHR ''x'' \<notin> set ws \<and> CHR ''x'' \<notin> set hs
          \<and> py_float ws = Some (Fin 0) \<and> py_float hs = Some (Fin (- 1)))"
proof -
  have h: "''0x-1'' \<notin> set presets" by (simp add: presets_def)
  have p: "parse_slide_size ''0x-1'' = Inr (Fin 0, Fin (- 1))"
    by (simp add: parse_slide_size_def py_float_def strip_def is_space_def parse_abs_def
        to_lower_def is_digit_def take_sign_def parse_exponent_def scale10_def nat_of_digits_def
        digit_val_def)
  from parse_slide_size_parts[OF h, of "Fin 0" "Fin (- 1)"] p h show ?thesis by simp
qed

text \<open>
  C10. For every token other than the four presets, parsing succeeds exactly when the token
  has exactly one \<open>x\<close> and \<open>float\<close> accepts what stands before it and what stands after it;
  in every other case the parser logs the error and exits with status 1. \<open>float\<close> takes
  surrounding white space, signs and the spellings of infinity and NaN, as the two tokens
  at the end show.
\<close>

theorem parse_slide_size_custom:
  assumes "tok \<notin> set presets"
  shows "((\<exists>w h. parse_slide_size tok = Inr (w, h)) \<longleftrightarrow>
            count_list tok (CHR ''x'') = 1
            \<and> py_float (takeWhile (\<lambda>c. c \<noteq> CHR ''x'') tok) \<noteq> None
            \<and> py_float (tl (dropWhile (\<lambda>c. c \<noteq> CHR ''x'') tok)) \<noteq> None)
       \<and> ((\<exists>w h. parse_slide_size tok = Inr (w, h))
            \<or> parse_slide_size tok = Inl ([(ERROR, slide_size_message)], SysExit 1))
       \<and> exit_status (Some (SysExit 1)) = 1
       \<and> parse_slide_size '' 1.5 x-2'' = Inr (Fin (3 / 2), Fin (- 2))
       \<and> parse_slide_size ''+infxNaN'' = Inr (PInf, NaN)"
proof -
  have ev: "parse_slide_size '' 1.5 x-2'' = Inr (Fin (3 / 2), Fin (- 2))"
       "parse_slide_size ''+infxNaN'' = Inr (PInf, NaN)"
    by (simp_all add: parse_slide_size_def py_float_def strip_def is_space_def parse_abs_def
        to_lower_def is_digit_def take_sign_def parse_exponent_def scale10_def nat_of_digits_def
        digit_val_def)
  show ?thesis
    unfolding parse_slide_size_split[OF assms] using ev
    by (auto split: option.splits)
qed

text \<open>C10 at the token \<open>3x2\<close>.\<close>

theorem parse_slide_size_custom_witness:
  "''3x2'' \<notin> set presets
   \<and> count_list ''3x2'' (CHR ''x'') = 1
   \<and> (\<exists>w h. parse_slide_size ''3x2'' = Inr (w, h))
   \<and> py_float (takeWhile (\<lambda>c. c \<noteq> CHR ''x'') ''3x2'') \<noteq> None
   \<and> py_float (tl (dropWhile (\<lambda>c. c \<noteq> CHR ''x'') ''3x2'')) \<noteq> None"
proof -
  have h: "''3x2'' \<notin> set presets" by (simp add: presets_def)
  have c: "count_list ''3x2'' (CHR ''x'') = 1" by simp
  have f: "py_float ''3'' \<noteq> None" "py_float ''2'' \<noteq> None"
    by (simp_all add: py_float_def strip_def is_space_def parse_abs_def
        to_lower_def is_digit_def take_sign_def parse_exponent_def)
  from parse_slide_size_custom[OF h] c f h show ?thesis by simp
qed

section \<open>Properties of the run\<close>

text \<open>What the logging calls, the exits and the later steps leave untouched.\<close>

lemma logging_info_frame [simp]:
  "fs (logging_info v m w) = fs w"
  "made (logging_info v m w) = made w"
  "commands (logging_info v m w) = commands w"
  "saved (logging_info v m w) = saved w"
  by (simp_all add: logging_info_def)

lemma logging_warning_frame [simp]:
  "fs (logging_warning m w) = fs w"
  "made (logging_warning m w) = made w"
  "commands (logging_warning m w) = commands w"
  "saved (logging_warning m w) = saved w"
  by (simp_all add: logging_warning_def)

lemma exit_in_frame [simp]:
  "fs (snd (exit_in w x)) = fs w"
  "made (snd (exit_in w x)) = made w"
  "commands (snd (exit_in w x)) = commands w"
  "saved (snd (exit_in w x)) = saved w"
  "fst (exit_in w x) = Some (snd x)"
  by (simp_all add: exit_in_def)

lemma add_slides_frame:
  "fs (snd (add_slides e v t x w prs i n)) = fs w
   \<and> made (snd (add_slides e v t x w prs i n)) = made w
   \<and> commands (snd (add_slides e v t x w prs i n)) = commands w
   \<and> saved (snd (add_slides e v t x w prs i n)) = saved w"
proof (induction e v t x w prs i n rule: add_slides.induct)
  case (1 e verb tmp ext w prs index slide_count)
  note eq = add_slides.simps[of e verb tmp ext w prs index slide_count]
  show ?case
  proof (cases "isfile (fs w) (page_file tmp ext index)")
    case False
    then show ?thesis by (simp add: eq Let_def)
  next
    case True
    show ?thesis
    proof (cases "add_picture_error e (page_file tmp ext index)")
      case (Some x)
      with True show ?thesis by (simp add: eq Let_def)
    next
      case None
      from 1[OF refl _ refl None] True None show ?thesis
        by (simp add: eq Let_def)
    qed
  qed
qed

lemma cleanup_frame [simp]:
  "made (cleanup e a t w) = made w"
  "commands (cleanup e a t w) = commands w"
  "saved (cleanup e a t w) = saved w"
  by (simp_all add: cleanup_def Let_def split: sum.splits)

lemma save_pptx_frame [simp]:
  "made (snd (save_pptx e a t w prs n)) = made w"
  "commands (snd (save_pptx e a t w prs n)) = commands w"
  by (simp_all add: save_pptx_def Let_def split: option.splits)

lemma assemble_frame [simp]:
  "made (snd (assemble e a t x w)) = made w"
  "commands (snd (assemble e a t x w)) = commands w"
  by (simp_all add: assemble_def split: sum.splits option.splits prod.splits)
     (metis add_slides_frame snd_conv)+

lemma rasterize_commands:
  "commands (snd (rasterize e a t w)) = commands w @ [convert_cmd a]"
  by (simp add: rasterize_def Let_def split: prod.splits run_result.splits sum.splits)

lemma rasterize_made:
  "made (snd (rasterize e a t w)) = made w"
  by (simp add: rasterize_def Let_def split: prod.splits run_result.splits sum.splits)

text \<open>
  C9. The command given to the external tool is a function of the arguments alone: whenever a
  run gets to the conversion (the input file is there, the directory is new and could be
  made) it starts exactly one command, \<open>convert\<close> followed by \<open>-verbose\<close> in verbose mode,
  \<open>-density\<close> and the DPI, the input file, \<open>-resize 50%\<close>, \<open>-quality\<close> and the quality, and
  the file \<open>page.jpg\<close> (JPEG) or \<open>page.png\<close> (PNG) in the temporary directory, in that order.
  A run that stops before starts none.
\<close>

theorem convert_cmd_exact:
  "commands (snd (main e a f0)) =
     (if isfile f0 (input_pdf a) \<and> \<not> path_exists f0 (temp_dir_of a)
         \<and> mkdir_error e f0 (temp_dir_of a) = None
      then [''convert'' # (if verbose a then [''-verbose''] else []) @
             [''-density'', str_int (dpi a),
              input_pdf a,
              ''-resize'', ''50%'',
              ''-quality'', str_int (quality a),
              temp_dir_of a @ (if last (temp_dir_of a) = CHR ''/'' then [] else ''/'')
                @ ''page.'' @ (case image_format a of JPEG \<Rightarrow> ''jpg'' | PNG \<Rightarrow> ''png'')]]
      else [])"
proof -
  have ne: "temp_dir_of a \<noteq> []"
    by (simp add: temp_dir_of_def Let_def split: option.splits)
  have cmd: "convert_cmd a = ''convert'' # (if verbose a then [''-verbose''] else []) @
             [''-density'', str_int (dpi a),
              input_pdf a,
              ''-resize'', ''50%'',
              ''-quality'', str_int (quality a),
              temp_dir_of a @ (if last (temp_dir_of a) = CHR ''/'' then [] else ''/'')
                @ ''page.'' @ (case image_format a of JPEG \<Rightarrow> ''jpg'' | PNG \<Rightarrow> ''png'')]"
    using ne by (cases "image_format a") (simp_all add: convert_cmd_def extension_of_def join_def)
  show ?thesis
    by (simp add: main_def Let_def os_mkdir_def rasterize_commands cmd split: option.splits)
qed

text \<open>The run up to the conversion, and the runs that stop before it.\<close>

lemma parse_slide_size_Inl:
  "parse_slide_size s = Inl x \<Longrightarrow> x = ([(ERROR, slide_size_message)], SysExit 1)"
  by (auto simp: parse_slide_size_def error_and_exit_def split: if_splits list.splits option.splits)

lemma main_reach:
  assumes "isfile f0 (input_pdf a)" "\<not> path_exists f0 (temp_dir_of a)"
    "mkdir_error e f0 (temp_dir_of a) = None"
  shows "main e a f0 = rasterize e a (temp_dir_of a)
           \<lparr>fs = put (temp_dir_of a) Dir f0, logged = [], made = [temp_dir_of a],
            commands = [], saved = []\<rparr>"
  using assms by (simp add: main_def Let_def os_mkdir_def)

lemma main_stopped:
  assumes "\<not> (isfile f0 (input_pdf a) \<and> \<not> path_exists f0 (temp_dir_of a)
    \<and> mkdir_error e f0 (temp_dir_of a) = None)"
  shows "fst (main e a f0) = Some (SysExit 1) \<and> fs (snd (main e a f0)) = f0
       \<and> made (snd (main e a f0)) = [] \<and> commands (snd (main e a f0)) = []
       \<and> saved (snd (main e a f0)) = []"
  using assms
  by (auto simp: main_def Let_def os_mkdir_def exit_in_def error_and_exit_def split: option.splits)

lemma main_stopped_slide_size:
  assumes "\<not> (isfile f0 (input_pdf a) \<and> \<not> path_exists f0 (temp_dir_of a)
    \<and> mkdir_error e f0 (temp_dir_of a) = None)"
  shows "main e a f0 = main e (a\<lparr>slide_size := s\<rparr>) f0"
  using assms
  by (auto simp: main_def Let_def os_mkdir_def temp_dir_of_def split: option.splits)

lemma map_of_put [simp]: "map_of (put p n f) = (map_of f)(p \<mapsto> n)"
  by (induction f) (auto simp: fun_eq_iff)

lemma remove_tree_gone:
  "map_of (remove_tree d f) q = (if q = d \<or> below d q then None else map_of f q)"
  by (induction f) (auto simp: remove_tree_def)

lemma temp_dir_of_slide_size [simp]: "temp_dir_of (a\<lparr>slide_size := s\<rparr>) = temp_dir_of a"
  by (simp add: temp_dir_of_def)

lemma convert_cmd_slide_size [simp]: "convert_cmd (a\<lparr>slide_size := s\<rparr>) = convert_cmd a"
  by (simp add: convert_cmd_def extension_of_def)

text \<open>
  C5. Whenever the workspace path is already there when the run starts, as a file or as a
  directory, the run exits with status 1 and changes nothing: the file system is the one it
  started in, no directory is made, no command is run and nothing is saved. The one message
  is the error about the existing directory (or about the input file, when that is missing
  too and is reported first).
\<close>

theorem workspace_exists_aborts:
  assumes "map_of f0 (temp_dir_of a) = Some n"
  shows "exit_status (fst (main e a f0)) = 1
       \<and> fs (snd (main e a f0)) = f0
       \<and> made (snd (main e a f0)) = []
       \<and> commands (snd (main e a f0)) = []
       \<and> saved (snd (main e a f0)) = []
       \<and> logged (snd (main e a f0)) =
           [(ERROR, if isfile f0 (input_pdf a)
                    then ''Temporary directory '' @ quoted (temp_dir_of a) @ '' already exists. ''
                           @ ''Remove it or specify a different directory with --temp-dir.''
                    else ''PDF file '' @ quoted (input_pdf a) @ '' does not exist.'')]"
  using assms by (simp add: main_def Let_def path_exists_def exit_in_def error_and_exit_def)

text \<open>C5 on the example, with \<open>deck_temp\<close> already there as a file.\<close>

theorem workspace_exists_aborts_witness:
  "map_of (demo_fs @ [(''deck_temp'', File)]) (temp_dir_of demo_args) = Some File
   \<and> exit_status (fst (main (demo_env demo_pages 0) demo_args (demo_fs @ [(''deck_temp'', File)]))) = 1
   \<and> fs (snd (main (demo_env demo_pages 0) demo_args (demo_fs @ [(''deck_temp'', File)])))
       = demo_fs @ [(''deck_temp'', File)]
   \<and> made (snd (main (demo_env demo_pages 0) demo_args (demo_fs @ [(''deck_temp'', File)]))) = []"
proof -
  have h: "map_of (demo_fs @ [(''deck_temp'', File)]) (temp_dir_of demo_args) = Some File"
    by code_simp
  from workspace_exists_aborts[OF h, of "demo_env demo_pages 0"] h show ?thesis by simp
qed

text \<open>
  C4. When the external command exits with a status other than 0, the run exits with status
  1 and logs \<open>ImageMagick conversion failed\<close> with the text of the exception as an error, and
  nothing is saved. With \<open>--retain-image-files\<close> the file system stays as the command left
  it (as it does when the command left no directory at the workspace path). Without it, the
  workspace directory is deleted at once: the tree is removed, or left as it is when the
  deletion fails, and no error of the deletion is reported; after a deletion that worked
  neither the directory nor anything in it is there.
\<close>

theorem rasterization_failure_cleanup:
  assumes "isfile f0 (input_pdf a)" "\<not> path_exists f0 (temp_dir_of a)"
    "mkdir_error e f0 (temp_dir_of a) = None"
    "run_command e (put (temp_dir_of a) Dir f0) (convert_cmd a) = (Completed rc, f1)"
    "rc \<noteq> 0"
  shows "exit_status (fst (main e a f0)) = 1
       \<and> logged (snd (main e a f0)) =
             (if verbose a
              then [(INFO, ''Running ImageMagick convert:'' @ [CHR 0x0A] @ ''  ''
                             @ join_words (convert_cmd a))]
              else [])
             @ [(ERROR, ''ImageMagick conversion failed: '' @ called_process_text e (convert_cmd a) rc)]
       \<and> saved (snd (main e a f0)) = []
       \<and> (retain_image_files a \<or> \<not> isdir f1 (temp_dir_of a) \<longrightarrow> fs (snd (main e a f0)) = f1)
       \<and> (\<not> retain_image_files a \<and> isdir f1 (temp_dir_of a) \<longrightarrow>
             fs (snd (main e a f0)) =
               (case rmtree_error e f1 (temp_dir_of a) of
                  None \<Rightarrow> remove_tree (temp_dir_of a) f1
                | Some err \<Rightarrow> f1))
       \<and> (\<not> retain_image_files a \<and> isdir f1 (temp_dir_of a)
            \<and> rmtree_error e f1 (temp_dir_of a) = None \<longrightarrow>
             \<not> path_exists (fs (snd (main e a f0))) (temp_dir_of a)
             \<and> (\<forall>q. below (temp_dir_of a) q \<longrightarrow> \<not> path_exists (fs (snd (main e a f0))) q))"
  unfolding main_reach[OF assms(1-3)] using assms(4,5)
  by (simp add: rasterize_def Let_def logging_info_def exit_in_def error_and_exit_def
      shutil_rmtree_def path_exists_def remove_tree_gone split: option.splits)

text \<open>C4 on the example, the command exiting with status 1.\<close>

theorem rasterization_failure_cleanup_witness:
  "isfile demo_fs (input_pdf demo_args)
   \<and> \<not> path_exists demo_fs (temp_dir_of demo_args)
   \<and> mkdir_error (demo_env demo_pages 1) demo_fs (temp_dir_of demo_args) = None
   \<and> run_command (demo_env demo_pages 1) (put (temp_dir_of demo_args) Dir demo_fs)
         (convert_cmd demo_args)
       = (Completed 1, put (temp_dir_of demo_args) Dir demo_fs @ demo_pages)
   \<and> \<not> retain_image_files demo_args
   \<and> isdir (put (temp_dir_of demo_args) Dir demo_fs @ demo_pages) (temp_dir_of demo_args)
   \<and> exit_status (fst (main (demo_env demo_pages 1) demo_args demo_fs)) = 1
   \<and> \<not> path_exists (fs (snd (main (demo_env demo_pages 1) demo_args demo_fs)))
         (temp_dir_of demo_args)"
proof -
  have h1: "isfile demo_fs (input_pdf demo_args)" by code_simp
  have h2: "\<not> path_exists demo_fs (temp_dir_of demo_args)" by code_simp
  have h3: "mkdir_error (demo_env demo_pages 1) demo_fs (temp_dir_of demo_args) = None"
    by (simp add: demo_env_def)
  have h4: "run_command (demo_env demo_pages 1) (put (temp_dir_of demo_args) Dir demo_fs)
         (convert_cmd demo_args)
       = (Completed 1, put (temp_dir_of demo_args) Dir demo_fs @ demo_pages)"
    by (simp add: demo_env_def)
  have h5: "(1::int) \<noteq> 0" by simp
  have h6: "\<not> retain_image_files demo_args" by (simp add: demo_args_def)
  have h7: "isdir (put (temp_dir_of demo_args) Dir demo_fs @ demo_pages) (temp_dir_of demo_args)"
    by code_simp
  have h8: "rmtree_error (demo_env demo_pages 1)
      (put (temp_dir_of demo_args) Dir demo_fs @ demo_pages) (temp_dir_of demo_args) = None"
    by (simp add: demo_env_def)
  from rasterization_failure_cleanup[OF h1 h2 h3 h4 h5] h6 h7 h8
  have "exit_status (fst (main (demo_env demo_pages 1) demo_args demo_fs)) = 1
     \<and> \<not> path_exists (fs (snd (main (demo_env demo_pages 1) demo_args demo_fs)))
         (temp_dir_of demo_args)"
    by blast
  with h1 h2 h3 h4 h6 h7 show ?thesis by blast
qed

text \<open>
  C1, as the claim states it, fails: with the malformed token \<open>abcxdef\<close> the example run
  exits with status 1 after it has made the directory \<open>deck_temp\<close> and run the command.
\<close>

theorem malformed_slide_size_side_effects:
  "parse_slide_size ''abcxdef'' = Inl ([(ERROR, slide_size_message)], SysExit 1)
   \<and> exit_status (fst (main (demo_env demo_pages 0) (demo_args\<lparr>slide_size := ''abcxdef''\<rparr>) demo_fs)) = 1
   \<and> made (snd (main (demo_env demo_pages 0) (demo_args\<lparr>slide_size := ''abcxdef''\<rparr>) demo_fs))
       = [''deck_temp'']
   \<and> commands (snd (main (demo_env demo_pages 0) (demo_args\<lparr>slide_size := ''abcxdef''\<rparr>) demo_fs))
       = [[''convert'', ''-density'', ''1200'', ''deck.pdf'', ''-resize'', ''50%'',
           ''-quality'', ''95'', ''deck_temp/page.jpg'']]"
  by code_simp

text \<open>
  C1, amended. A run with a malformed slide-size token exits with status 1 and saves no
  presentation. The token is not parsed first: it is read only after the workspace directory
  has been made and the external command has exited with status 0. So a run that gets to the
  conversion has made the directory and run the command, whatever the token; when the
  command exits with 0 the run then stops with \<open>sys.exit(1)\<close> and the parser's message as
  its error; and a run that does not get that far is the same run as with any other token.
\<close>

theorem malformed_slide_size_late:
  assumes "parse_slide_size (slide_size a) = Inl x"
  shows "exit_status (fst (main e a f0)) = 1
       \<and> saved (snd (main e a f0)) = []
       \<and> (isfile f0 (input_pdf a) \<and> \<not> path_exists f0 (temp_dir_of a)
            \<and> mkdir_error e f0 (temp_dir_of a) = None
          \<longrightarrow> made (snd (main e a f0)) = [temp_dir_of a]
              \<and> commands (snd (main e a f0)) = [convert_cmd a])
       \<and> (isfile f0 (input_pdf a) \<and> \<not> path_exists f0 (temp_dir_of a)
            \<and> mkdir_error e f0 (temp_dir_of a) = None
            \<and> fst (run_command e (put (temp_dir_of a) Dir f0) (convert_cmd a)) = Completed 0
          \<longrightarrow> fst (main e a f0) = Some (SysExit 1)
              \<and> logged (snd (main e a f0)) =
                  (if verbose a
                   then [(INFO, ''Running ImageMagick convert:'' @ [CHR 0x0A] @ ''  ''
                                  @ join_words (convert_cmd a)),
                         (INFO, ''Conversion done. Now generating PPTX...'')]
                   else [])
                  @ [(ERROR, slide_size_message)])
       \<and> (\<not> (isfile f0 (input_pdf a) \<and> \<not> path_exists f0 (temp_dir_of a)
               \<and> mkdir_error e f0 (temp_dir_of a) = None
               \<and> fst (run_command e (put (temp_dir_of a) Dir f0) (convert_cmd a)) = Completed 0)
          \<longrightarrow> main e a f0 = main e (a\<lparr>slide_size := s\<rparr>) f0)"
proof -
  from assms have x: "x = ([(ERROR, slide_size_message)], SysExit 1)"
    by (rule parse_slide_size_Inl)
  have asm: "assemble e a t ext w = exit_in w ([(ERROR, slide_size_message)], SysExit 1)" for t ext w
    using assms x by (simp add: assemble_def)
  show ?thesis
  proof (cases "isfile f0 (input_pdf a) \<and> \<not> path_exists f0 (temp_dir_of a)
            \<and> mkdir_error e f0 (temp_dir_of a) = None")
    case False
    from main_stopped[OF False]
    have "exit_status (fst (main e a f0)) = 1" "saved (snd (main e a f0)) = []"
      by simp_all
    moreover note main_stopped_slide_size[OF False, of s]
    ultimately show ?thesis using False by blast
  next
    case True
    then have r: "isfile f0 (input_pdf a)" "\<not> path_exists f0 (temp_dir_of a)"
      "mkdir_error e f0 (temp_dir_of a) = None" by simp_all
    have r': "isfile f0 (input_pdf (a\<lparr>slide_size := s\<rparr>))"
      "\<not> path_exists f0 (temp_dir_of (a\<lparr>slide_size := s\<rparr>))"
      "mkdir_error e f0 (temp_dir_of (a\<lparr>slide_size := s\<rparr>)) = None"
      using r by simp_all
    obtain res f1 where run: "run_command e (put (temp_dir_of a) Dir f0) (convert_cmd a) = (res, f1)"
      by (cases "run_command e (put (temp_dir_of a) Dir f0) (convert_cmd a)")
    show ?thesis
      unfolding main_reach[OF r] main_reach[OF r']
      using True run
      by (cases res)
         (auto simp: rasterize_def Let_def asm exit_in_def logging_info_def error_and_exit_def
            extension_of_def split: sum.splits)
  qed
qed

text \<open>The amended C1 on the example with the token \<open>abcxdef\<close>.\<close>

theorem malformed_slide_size_late_witness:
  "parse_slide_size (slide_size (demo_args\<lparr>slide_size := ''abcxdef''\<rparr>))
     = Inl ([(ERROR, slide_size_message)], SysExit 1)
   \<and> exit_status (fst (main (demo_env demo_pages 0) (demo_args\<lparr>slide_size := ''abcxdef''\<rparr>) demo_fs)) = 1
   \<and> saved (snd (main (demo_env demo_pages 0) (demo_args\<lparr>slide_size := ''abcxdef''\<rparr>) demo_fs)) = []"
proof -
  have h: "parse_slide_size (slide_size (demo_args\<lparr>slide_size := ''abcxdef''\<rparr>))
     = Inl ([(ERROR, slide_size_message)], SysExit 1)"
    by code_simp
  from malformed_slide_size_late[OF h, of "demo_env demo_pages 0" demo_fs] h
  show ?thesis by blast
qed

section \<open>Properties of the assembly\<close>

text \<open>One round of the loop, and the loop from index \<open>k\<close> up to the first missing file.\<close>

lemma add_slides_unfold:
  "add_slides e v t x w prs i n =
     (if \<not> isfile (fs w) (page_file t x i) then (Inr (prs, n), w)
      else (case add_picture_error e (page_file t x i) of
              Some err \<Rightarrow> (Inl err, logging_info v (''Adding slide for '' @ quoted (page_file t x i)) w)
            | None \<Rightarrow>
                add_slides e v t x (logging_info v (''Adding slide for '' @ quoted (page_file t x i)) w)
                  (prs\<lparr>slides := slides prs @
                     [\<lparr>image_file = page_file t x i, pic_left = 0, pic_top = 0,
                       pic_width = slide_width prs, pic_height = slide_height prs\<rparr>]\<rparr>)
                  (i + 1) (n + 1)))"
  by (subst add_slides.simps) (simp add: Let_def split: option.splits)

lemma add_slides_pages:
  assumes "\<And>i. k \<le> i \<Longrightarrow> i < N \<Longrightarrow> isfile (fs w) (page_file t x i)"
    and "\<not> isfile (fs w) (page_file t x N)"
    and "\<And>i. k \<le> i \<Longrightarrow> i < N \<Longrightarrow> add_picture_error e (page_file t x i) = None"
    and "k \<le> N"
  shows "fst (add_slides e v t x w prs k c) =
      Inr (prs\<lparr>slides := slides prs @
             map (\<lambda>i. \<lparr>image_file = page_file t x i, pic_left = 0, pic_top = 0,
                        pic_width = slide_width prs, pic_height = slide_height prs\<rparr>) [k..<N]\<rparr>,
           c + (N - k))"
  using assms
proof (induction "N - k" arbitrary: k w prs c)
  case 0
  then have "k = N" by simp
  with 0 show ?case by (subst add_slides_unfold) simp
next
  case (Suc d)
  then have lt: "k < N" by simp
  let ?w = "logging_info v (''Adding slide for '' @ quoted (page_file t x k)) w"
  let ?p = "prs\<lparr>slides := slides prs @
                     [\<lparr>image_file = page_file t x k, pic_left = 0, pic_top = 0,
                       pic_width = slide_width prs, pic_height = slide_height prs\<rparr>]\<rparr>"
  have here: "isfile (fs w) (page_file t x k)" "add_picture_error e (page_file t x k) = None"
    using Suc.prems(1,3)[of k] lt by simp_all
  have step: "add_slides e v t x w prs k c = add_slides e v t x ?w ?p (k + 1) (c + 1)"
    by (subst add_slides_unfold) (simp add: here)
  have d: "d = N - (k + 1)" using Suc.hyps(2) by simp
  have ih: "fst (add_slides e v t x ?w ?p (k + 1) (c + 1)) =
      Inr (?p\<lparr>slides := slides ?p @
             map (\<lambda>i. \<lparr>image_file = page_file t x i, pic_left = 0, pic_top = 0,
                        pic_width = slide_width ?p, pic_height = slide_height ?p\<rparr>) [k + 1..<N]\<rparr>,
           (c + 1) + (N - (k + 1)))"
  proof (rule Suc.hyps(1)[OF d])
    show "isfile (fs ?w) (page_file t x i)" if "k + 1 \<le> i" "i < N" for i
      using Suc.prems(1)[of i] that by simp
    show "\<not> isfile (fs ?w) (page_file t x N)" using Suc.prems(2) by simp
    show "add_picture_error e (page_file t x i) = None" if "k + 1 \<le> i" "i < N" for i
      using Suc.prems(3)[of i] that by simp
    show "k + 1 \<le> N" using lt by simp
  qed
  have upt: "[k..<N] = k # [k + 1..<N]" using lt by (simp add: upt_conv_Cons)
  show ?case
    unfolding step ih upt using lt by simp
qed

lemma cleanup_no_error: "ERROR \<notin> fst ` set (logged w) \<Longrightarrow> ERROR \<notin> fst ` set (logged (cleanup e a t w))"
  by (auto simp: cleanup_def Let_def logging_info_def logging_warning_def split: sum.splits)

text \<open>
  C6. When the files \<open>page-0\<close> to \<open>page-(N-1)\<close> are in the workspace and \<open>page-N\<close> is not, the
  loop ends with exactly \<open>N\<close> slides, one for each of these files in the order of their
  indices, each picture at the origin and as large as the canvas, and with \<open>slide_count = N\<close>,
  whatever files of higher index there are (each image being one the library can load).
\<close>

theorem slides_stop_at_first_gap:
  assumes "\<forall>i<N. isfile (fs w) (page_file tmp ext i)"
    and "\<not> isfile (fs w) (page_file tmp ext N)"
    and "\<forall>i<N. add_picture_error e (page_file tmp ext i) = None"
  shows "fst (add_slides e v tmp ext w prs 0 0) =
      Inr (prs\<lparr>slides := slides prs @
             map (\<lambda>i. \<lparr>image_file = page_file tmp ext i, pic_left = 0, pic_top = 0,
                        pic_width = slide_width prs, pic_height = slide_height prs\<rparr>) [0..<N]\<rparr>,
           N)"
  using add_slides_pages[of 0 N w tmp ext e v prs 0] assms by simp

text \<open>C6 on the example files \<open>page-0\<close>, \<open>page-1\<close>, \<open>page-2\<close> and \<open>page-4\<close>: three slides.\<close>

theorem slides_stop_at_first_gap_witness:
  "isfile demo_pages (page_file ''deck_temp'' ''jpg'' 0)
   \<and> isfile demo_pages (page_file ''deck_temp'' ''jpg'' 1)
   \<and> isfile demo_pages (page_file ''deck_temp'' ''jpg'' 2)
   \<and> \<not> isfile demo_pages (page_file ''deck_temp'' ''jpg'' 3)
   \<and> isfile demo_pages (page_file ''deck_temp'' ''jpg'' 4)
   \<and> fst (add_slides (demo_env [] 0) False ''deck_temp'' ''jpg''
             \<lparr>fs = demo_pages, logged = [], made = [], commands = [], saved = []\<rparr>
             \<lparr>slide_width = 12191969, slide_height = 6858000, slides = []\<rparr> 0 0) =
       Inr (\<lparr>slide_width = 12191969, slide_height = 6858000,
             slides = map (\<lambda>i. \<lparr>image_file = page_file ''deck_temp'' ''jpg'' i, pic_left = 0,
                                 pic_top = 0, pic_width = 12191969, pic_height = 6858000\<rparr>)
                        [0..<3]\<rparr>, 3)"
proof -
  let ?w = "\<lparr>fs = demo_pages, logged = [], made = [], commands = [], saved = []\<rparr>"
  have p0: "isfile demo_pages (page_file ''deck_temp'' ''jpg'' 0)" by code_simp
  have p1: "isfile demo_pages (page_file ''deck_temp'' ''jpg'' 1)" by code_simp
  have p2: "isfile demo_pages (page_file ''deck_temp'' ''jpg'' 2)" by code_simp
  have p3: "\<not> isfile demo_pages (page_file ''deck_temp'' ''jpg'' 3)" by code_simp
  have p4: "isfile demo_pages (page_file ''deck_temp'' ''jpg'' 4)" by code_simp
  have lt3: "i = 0 \<or> i = 1 \<or> i = 2" if "i < 3" for i :: nat
    using that by arith
  have h1: "\<forall>i<3. isfile (fs ?w) (page_file ''deck_temp'' ''jpg'' i)"
    using p0 p1 p2 lt3 by auto
  have h2: "\<not> isfile (fs ?w) (page_file ''deck_temp'' ''jpg'' 3)"
    using p3 by simp
  have h3: "\<forall>i<3. add_picture_error (demo_env [] 0) (page_file ''deck_temp'' ''jpg'' i) = None"
    by (simp add: demo_env_def)
  from slides_stop_at_first_gap[OF h1 h2 h3, of False
      "\<lparr>slide_width = 12191969, slide_height = 6858000, slides = []\<rparr>"]
  have "fst (add_slides (demo_env [] 0) False ''deck_temp'' ''jpg'' ?w
             \<lparr>slide_width = 12191969, slide_height = 6858000, slides = []\<rparr> 0 0) =
       Inr (\<lparr>slide_width = 12191969, slide_height = 6858000,
             slides = map (\<lambda>i. \<lparr>image_file = page_file ''deck_temp'' ''jpg'' i, pic_left = 0,
                                 pic_top = 0, pic_width = 12191969, pic_height = 6858000\<rparr>)
                        [0..<3]\<rparr>, 3)"
    by simp
  with p0 p1 p2 p3 p4 show ?thesis by blast
qed

text \<open>
  C8. When the conversion succeeded and \<open>page-0\<close> is not in the workspace, the run still
  saves the presentation to the output path, with the canvas of the slide size and no slide,
  logs no error and returns from \<open>main\<close>: the exit status is 0 (the slide size being one the
  library takes, and the save one that works).
\<close>

theorem no_pages_still_saved:
  assumes "isfile f0 (input_pdf a)" "\<not> path_exists f0 (temp_dir_of a)"
    and "mkdir_error e f0 (temp_dir_of a) = None"
    and "run_command e (put (temp_dir_of a) Dir f0) (convert_cmd a) = (Completed 0, f1)"
    and "parse_slide_size (slide_size a) = Inr (wi, hi)"
    and "Inches e wi = Inr cx" "set_slide_width_error e cx = None"
    and "Inches e hi = Inr cy" "set_slide_height_error e cy = None"
    and "\<not> isfile f1 (page_file (temp_dir_of a) (extension_of a) 0)"
    and "save_error e f1 (output_pptx a) = None"
  shows "fst (main e a f0) = None
       \<and> exit_status (fst (main e a f0)) = 0
       \<and> saved (snd (main e a f0)) =
            [(output_pptx a, \<lparr>slide_width = cx, slide_height = cy, slides = []\<rparr>)]
       \<and> ERROR \<notin> fst ` set (logged (snd (main e a f0)))"
proof -
  define w where "w = logging_info (verbose a) ''Conversion done. Now generating PPTX...''
      (logging_info (verbose a)
         (''Running ImageMagick convert:'' @ [CHR 0x0A] @ ''  '' @ join_words (convert_cmd a))
         \<lparr>fs = put (temp_dir_of a) Dir f0, logged = [], made = [temp_dir_of a],
          commands = [], saved = []\<rparr>
       \<lparr>commands := [convert_cmd a], fs := f1\<rparr>)"
  have w: "fs w = f1" "saved w = []" "ERROR \<notin> fst ` set (logged w)"
    by (auto simp: w_def logging_info_def)
  have r: "main e a f0 = assemble e a (temp_dir_of a) (extension_of a) w"
    unfolding main_reach[OF assms(1-3)]
    using assms(4) by (simp add: rasterize_def Let_def logging_info_def w_def)
  have loop: "add_slides e (verbose a) (temp_dir_of a) (extension_of a) w
      \<lparr>slide_width = cx, slide_height = cy, slides = []\<rparr> 0 0
      = (Inr (\<lparr>slide_width = cx, slide_height = cy, slides = []\<rparr>, 0), w)"
    using assms(10) w(1) by (subst add_slides_unfold) simp
  define w2 where "w2 = logging_info (verbose a)
       (''Successfully created '' @ quoted (output_pptx a) @ '' with ''
          @ str_nat 0 @ '' slide(s).'')
       (w\<lparr>fs := put (output_pptx a) File (fs w),
            saved := saved w @ [(output_pptx a, \<lparr>slide_width = cx, slide_height = cy, slides = []\<rparr>)]\<rparr>)"
  have a: "assemble e a (temp_dir_of a) (extension_of a) w
      = (None, cleanup e a (temp_dir_of a) w2)"
    using assms(5-9,11) w(1)
    by (simp add: assemble_def loop save_pptx_def Let_def w2_def)
  have "ERROR \<notin> fst ` set (logged w2)"
    using w(3) by (auto simp: w2_def logging_info_def)
  then have "ERROR \<notin> fst ` set (logged (cleanup e a (temp_dir_of a) w2))"
    by (rule cleanup_no_error)
  moreover have "saved (cleanup e a (temp_dir_of a) w2)
      = [(output_pptx a, \<lparr>slide_width = cx, slide_height = cy, slides = []\<rparr>)]"
    using w(2) by (simp add: w2_def)
  ultimately show ?thesis
    unfolding r a by simp
qed

text \<open>C8 on the example, the command leaving no file.\<close>

theorem no_pages_still_saved_witness:
  "isfile demo_fs (input_pdf demo_args)
   \<and> \<not> path_exists demo_fs (temp_dir_of demo_args)
   \<and> \<not> isfile (put (temp_dir_of demo_args) Dir demo_fs)
         (page_file (temp_dir_of demo_args) (extension_of demo_args) 0)
   \<and> exit_status (fst (main (demo_env [] 0) demo_args demo_fs)) = 0
   \<and> saved (snd (main (demo_env [] 0) demo_args demo_fs)) =
        [(output_pptx demo_args, \<lparr>slide_width = 12191969, slide_height = 6858000, slides = []\<rparr>)]"
proof -
  have h1: "isfile demo_fs (input_pdf demo_args)" by code_simp
  have h2: "\<not> path_exists demo_fs (temp_dir_of demo_args)" by code_simp
  have h3: "mkdir_error (demo_env [] 0) demo_fs (temp_dir_of demo_args) = None"
    by (simp add: demo_env_def)
  have h4: "run_command (demo_env [] 0) (put (temp_dir_of demo_args) Dir demo_fs)
      (convert_cmd demo_args) = (Completed 0, put (temp_dir_of demo_args) Dir demo_fs)"
    by (simp add: demo_env_def)
  have h5: "parse_slide_size (slide_size demo_args) = Inr (Fin (133333 / 10000), Fin (15 / 2))"
    by (simp add: demo_args_def parse_slide_size_def)
  have h6: "Inches (demo_env [] 0) (Fin (133333 / 10000)) = Inr 12191969" by code_simp
  have h7: "set_slide_width_error (demo_env [] 0) 12191969 = None" by (simp add: demo_env_def)
  have h8: "Inches (demo_env [] 0) (Fin (15 / 2)) = Inr 6858000" by code_simp
  have h9: "set_slide_height_error (demo_env [] 0) 6858000 = None" by (simp add: demo_env_def)
  have h10: "\<not> isfile (put (temp_dir_of demo_args) Dir demo_fs)
         (page_file (temp_dir_of demo_args) (extension_of demo_args) 0)"
    by code_simp
  have h11: "save_error (demo_env [] 0) (put (temp_dir_of demo_args) Dir demo_fs)
      (output_pptx demo_args) = None"
    by (simp add: demo_env_def)
  from no_pages_still_saved[OF h1 h2 h3 h4 h5 h6 h7 h8 h9 h10 h11] h1 h2 h10
  show ?thesis by blast
qed

text \<open>
  C2 on the example: when \<open>prs.save\<close> raises, the exception is not caught, the run ends there
  with nothing logged, and the workspace with its images is still in place although
  \<open>--retain-image-files\<close> was not given.
\<close>

theorem save_failure_leaves_workspace:
  "\<not> retain_image_files demo_args
   \<and> fst (main ((demo_env demo_pages 0)\<lparr>save_error := (\<lambda>f p. Some ''Permission denied'')\<rparr>)
          demo_args demo_fs) = Some (Uncaught ''Permission denied'')
   \<and> isdir (fs (snd (main ((demo_env demo_pages 0)\<lparr>save_error := (\<lambda>f p. Some ''Permission denied'')\<rparr>)
          demo_args demo_fs))) ''deck_temp''
   \<and> isfile (fs (snd (main ((demo_env demo_pages 0)\<lparr>save_error := (\<lambda>f p. Some ''Permission denied'')\<rparr>)
          demo_args demo_fs))) ''deck_temp/page-0.jpg''
   \<and> logged (snd (main ((demo_env demo_pages 0)\<lparr>save_error := (\<lambda>f p. Some ''Permission denied'')\<rparr>)
          demo_args demo_fs)) = []"
  by code_simp

end
